theory Spec2Isabelle
  imports Main "HOL-Library.Word"
begin

section \<open>Local activations (runtime/compiler/local\_activations.go)\<close>

text \<open>
  Go pointers are modelled as values of \<open>'a pointer\<close>: \<open>nil\<close> is Go's \<open>nil\<close>,
  \<open>Ptr a\<close> points to the object at \<open>a\<close>. A \<open>*Local\<close> is a \<open>'l pointer\<close>
  (the struct \<open>Local\<close> is declared elsewhere in the package and never inspected here,
  so its identity is a type parameter). A \<open>*LocalActivation\<close> is an \<open>addr pointer\<close>
  into a memory of frames, because frames are shared (a frame is the parent of others
  and an element of the stack at once) and mutated in place by \<open>Set\<close>.
  \<open>FunctionValues\<close> is not modelled: nothing below is about it.
\<close>

datatype 'a pointer = nil | Ptr 'a

type_synonym addr = nat

text \<open>
  \<^verbatim>\<open>
  type LocalActivation struct {
      entries    map[string]*Local
      Depth      int
      Parent     *LocalActivation
      isFunction bool
  }
  \<close>
  A Go map is a reference that may be \<open>nil\<close>; a map that exists is a partial function
  from names to \<open>*Local\<close> values (which may themselves be \<open>nil\<close>). \<open>Depth\<close> is a Go
  \<open>int\<close>, 64 bits wide on the platforms the runtime is built for; \<open>+\<close> on the word wraps
  as Go's does.
\<close>

record 'l LocalActivation =
  entries :: "(string \<rightharpoonup> 'l pointer) pointer"
  Depth :: "64 word"
  Parent :: "addr pointer"
  isFunction :: bool

text \<open>
  The memory holds one frame per address; \<open>fresh\<close> is the next address the allocator
  hands out (\<open>&LocalActivation{...}\<close> always yields an object distinct from all others).
\<close>

record 'l memory =
  frames :: "addr \<Rightarrow> 'l LocalActivation"
  fresh :: addr

datatype error = NilPointerDereference

text \<open>
  \<^verbatim>\<open>
  func NewLocalActivation(parent *LocalActivation) *LocalActivation {
      var depth int
      if parent != nil {
          depth = parent.Depth + 1
      }
      return &LocalActivation{Depth: depth, Parent: parent}
  }
  \<close>
\<close>

definition NewLocalActivation :: "'l memory \<Rightarrow> addr pointer \<Rightarrow> 'l memory \<times> addr" where
  "NewLocalActivation m parent =
     (let depth = (case parent of nil \<Rightarrow> 0 | Ptr p \<Rightarrow> Depth (frames m p) + 1);
          a = fresh m
      in (m\<lparr>frames := (frames m)
               (a := \<lparr>entries = nil, Depth = depth, Parent = parent, isFunction = False\<rparr>),
            fresh := a + 1\<rparr>,
          a))"

text \<open>
  \<^verbatim>\<open>
  func (a *LocalActivation) Find(name string) *Local {
      current := a
      for current != nil {
          if current.entries != nil {
              result, ok := current.entries[name]
              if ok {
                  return result
              }
          }
          current = current.Parent
      }
      return nil
  }
  \<close>
  The loop follows \<open>Parent\<close> links and need not end (nothing in the type keeps a chain
  from running into itself), so the result is an option: \<open>None\<close> is "does not return",
  \<open>Some r\<close> is "returns \<open>r\<close>".
\<close>

partial_function (option) LocalActivation_Find ::
  "'l memory \<Rightarrow> addr pointer \<Rightarrow> string \<Rightarrow> 'l pointer option"
where
  "LocalActivation_Find m current name =
     (case current of
        nil \<Rightarrow> Some nil
      | Ptr c \<Rightarrow>
          (case entries (frames m c) of
             nil \<Rightarrow> LocalActivation_Find m (Parent (frames m c)) name
           | Ptr es \<Rightarrow>
               (case es name of
                  Some result \<Rightarrow> Some result
                | None \<Rightarrow> LocalActivation_Find m (Parent (frames m c)) name)))"

text \<open>
  \<^verbatim>\<open>
  func (a *LocalActivation) Set(name string, value *Local) {
      if a.entries == nil {
          a.entries = make(map[string]*Local)
      }
      a.entries[name] = value
  }
  \<close>
  Reading \<open>a.entries\<close> through a \<open>nil\<close> receiver panics.
\<close>

definition LocalActivation_Set ::
  "'l memory \<Rightarrow> addr pointer \<Rightarrow> string \<Rightarrow> 'l pointer \<Rightarrow> error + 'l memory"
where
  "LocalActivation_Set m a name v =
     (case a of
        nil \<Rightarrow> Inl NilPointerDereference
      | Ptr p \<Rightarrow>
          (let f = frames m p;
               es = (case entries f of nil \<Rightarrow> Map.empty | Ptr es \<Rightarrow> es)
           in Inr (m\<lparr>frames := (frames m)(p := f\<lparr>entries := Ptr (es(name \<mapsto> v))\<rparr>)\<rparr>)))"

text \<open>
  \<^verbatim>\<open>
  type LocalActivations struct {
      activations []*LocalActivation
  }
  \<close>
  The receiver of the stack methods is taken to be a stack that exists; its slice may
  be empty (or \<open>nil\<close>, which Go's \<open>len\<close>, \<open>append\<close> and slicing treat alike).
\<close>

record LocalActivations =
  activations :: "addr pointer list"

definition LocalActivations_Current :: "LocalActivations \<Rightarrow> addr pointer" where
  "LocalActivations_Current s =
     (let count = length (activations s)
      in if count < 1 then nil else activations s ! (count - 1))"

definition LocalActivations_Find ::
  "'l memory \<Rightarrow> LocalActivations \<Rightarrow> string \<Rightarrow> 'l pointer option"
where
  "LocalActivations_Find m s name =
     (let current = LocalActivations_Current s
      in if current = nil then Some nil else LocalActivation_Find m current name)"

definition LocalActivations_Push :: "LocalActivations \<Rightarrow> addr pointer \<Rightarrow> LocalActivations" where
  "LocalActivations_Push s activation = s\<lparr>activations := activations s @ [activation]\<rparr>"

definition LocalActivations_PushNewWithParent ::
  "'l memory \<Rightarrow> LocalActivations \<Rightarrow> addr pointer \<Rightarrow> 'l memory \<times> LocalActivations \<times> addr"
where
  "LocalActivations_PushNewWithParent m s parent =
     (let (m', activation) = NewLocalActivation m parent
      in (m', LocalActivations_Push s (Ptr activation), activation))"

definition LocalActivations_PushNewWithCurrent ::
  "'l memory \<Rightarrow> LocalActivations \<Rightarrow> 'l memory \<times> LocalActivations"
where
  "LocalActivations_PushNewWithCurrent m s =
     (let (m', s', activation) =
            LocalActivations_PushNewWithParent m s (LocalActivations_Current s)
      in (m', s'))"

definition LocalActivations_Set ::
  "'l memory \<Rightarrow> LocalActivations \<Rightarrow> string \<Rightarrow> 'l pointer
     \<Rightarrow> error + ('l memory \<times> LocalActivations)"
where
  "LocalActivations_Set m s name v =
     (let (m1, s1, current) =
            (case LocalActivations_Current s of
               nil \<Rightarrow>
                 (let (m', s', activation) = LocalActivations_PushNewWithParent m s nil
                  in (m', s', Ptr activation))
             | Ptr c \<Rightarrow> (m, s, Ptr c))
      in case LocalActivation_Set m1 current name v of
           Inl e \<Rightarrow> Inl e
         | Inr m2 \<Rightarrow> Inr (m2, s1))"

definition LocalActivations_Pop :: "LocalActivations \<Rightarrow> LocalActivations" where
  "LocalActivations_Pop s =
     (let count = length (activations s)
      in if count < 1 then s else s\<lparr>activations := take (count - 1) (activations s)\<rparr>)"

definition LocalActivations_CurrentOrNew ::
  "'l memory \<Rightarrow> LocalActivations \<Rightarrow> 'l memory \<times> addr pointer"
where
  "LocalActivations_CurrentOrNew m s =
     (let current = LocalActivations_Current s
      in if current = nil
         then (let (m', activation) = NewLocalActivation m nil in (m', Ptr activation))
         else (m, current))"

definition LocalActivations_Depth :: "LocalActivations \<Rightarrow> nat" where
  "LocalActivations_Depth s = length (activations s)"

subsection \<open>Vocabulary for the claims about \<open>Find\<close>\<close>

text \<open>
  \<open>chain m a as\<close>: following \<open>Parent\<close> from \<open>a\<close> visits exactly the frames \<open>as\<close>, nearest
  first, and then reaches \<open>nil\<close>.
\<close>

fun chain :: "'l memory \<Rightarrow> addr pointer \<Rightarrow> addr list \<Rightarrow> bool" where
  "chain m nil as = (as = [])"
| "chain m (Ptr a) [] = False"
| "chain m (Ptr a) (b # bs) = (a = b \<and> chain m (Parent (frames m a)) bs)"

text \<open>
  \<open>binds m a name\<close>: what the frame at \<open>a\<close> itself holds for \<open>name\<close>; \<open>None\<close> when the
  frame has no entry for it (or no map at all), \<open>Some v\<close> when \<open>entries[name]\<close> is \<open>v\<close>.
\<close>

definition binds :: "'l memory \<Rightarrow> addr \<Rightarrow> string \<Rightarrow> 'l pointer option" where
  "binds m a name = (case entries (frames m a) of nil \<Rightarrow> None | Ptr es \<Rightarrow> es name)"

text \<open>Concrete memories: nothing allocated; one fresh frame; that frame after
  \<open>Set("x", nil)\<close>; an inner frame 1 over an outer frame 0; a frame that is its own parent.\<close>

definition empty_memory :: "nat memory" where
  "empty_memory =
     \<lparr>frames = (\<lambda>a. \<lparr>entries = nil, Depth = 0, Parent = nil, isFunction = False\<rparr>), fresh = 0\<rparr>"

definition one_frame :: "nat memory" where
  "one_frame =
     \<lparr>frames = (\<lambda>a. \<lparr>entries = nil, Depth = 0, Parent = nil, isFunction = False\<rparr>), fresh = 1\<rparr>"

definition nil_bound :: "nat memory" where
  "nil_bound =
     \<lparr>frames = (\<lambda>a. \<lparr>entries = (if a = 0 then Ptr [''x'' \<mapsto> nil] else nil), Depth = 0,
                      Parent = nil, isFunction = False\<rparr>),
      fresh = 1\<rparr>"

definition two_frames :: "nat memory" where
  "two_frames =
     \<lparr>frames = (\<lambda>a. if a = 1
                     then \<lparr>entries = Ptr [''x'' \<mapsto> Ptr 2], Depth = 1, Parent = Ptr 0,
                            isFunction = False\<rparr>
                     else \<lparr>entries = Ptr [''x'' \<mapsto> Ptr 1, ''y'' \<mapsto> Ptr 7], Depth = 0,
                            Parent = nil, isFunction = False\<rparr>),
      fresh = 2\<rparr>"

definition cyclic :: "nat memory" where
  "cyclic =
     \<lparr>frames = (\<lambda>a. \<lparr>entries = nil, Depth = 0, Parent = Ptr 0, isFunction = False\<rparr>), fresh = 1\<rparr>"

section \<open>The execution harness (spec section 4.5; tests in runtime/testlib\_test.go)\<close>

text \<open>
  The harness itself (the blockchain backend behind \<open>Test.newEmulatorBlockchain()\<close>) is
  code of this repository that is not among the source files at hand: only its tests
  are (\<open>TestExecutingTransactions\<close> in testlib\_test.go). Its operations are therefore
  modelled from the specification, and the test scripts are translated from the test
  file, so that the model can be run on them. \<open>executeTransactions\<close>, \<open>executeScript\<close>
  and \<open>deployContract\<close> are not modelled. Neither is \<open>executeTransaction\<close>: the
  specification describes it as \<open>addTransaction\<close> followed by \<open>executeNextTransaction\<close>,
  which cannot fail while nothing is in flight, and the test "run transaction with pending
  transactions" (lines 906-941) expects it to fail with \<open>is currently being executed\<close>
  while another transaction is queued; what makes it fail is in code that is not at hand.
\<close>

type_synonym address = nat

datatype status = Succeeded | Failed

text \<open>
  Modelled from the spec: the harness's transaction type is not in the sources. Section 3,
  "PendingTransaction -- {code, authorizer addresses, signer accounts, arguments,
  insertion order}"; the fields are those of \<open>Test.Transaction(code:, authorizers:,
  signers:, arguments:)\<close> in the tests. The insertion order is the position in the queue.
\<close>

record transaction =
  code :: string
  authorizers :: "address list"
  signers :: "address list"
  arguments :: "string list"

text \<open>
  Modelled from the spec: the harness's errors are not in the sources. Section 7 (f),
  "HarnessStateError -- invalid transaction/block transition (`currently being executed,'
  `cannot be committed before execution')"; \<open>message\<close> gives the fragments that the
  tests look for in the error text.
\<close>

datatype harness_error = CurrentlyBeingExecuted | CommitBeforeExecution

definition message :: "harness_error \<Rightarrow> string" where
  "message e =
     (case e of
        CurrentlyBeingExecuted \<Rightarrow> ''is currently being executed''
      | CommitBeforeExecution \<Rightarrow> ''cannot be committed before execution'')"

text \<open>
  Modelled from the spec: the harness state is not in the sources. Sections 3 and 4.5:
  the Queued transactions (oldest first), the Selected (in-flight) transaction if any,
  the open block's "ordered list of transaction execution results", the blocks already
  committed, and per account a sequence number.
\<close>

record harness =
  queued :: "transaction list"
  selected :: "transaction option"
  results :: "status list"
  committed :: "status list list"
  sequence :: "address \<Rightarrow> nat"
  next_address :: address

text \<open>Modelled from the spec: the constructor is not in the sources. A new harness has
  no account, no transaction and an open, empty block.\<close>

definition newEmulatorBlockchain :: harness where
  "newEmulatorBlockchain =
     \<lparr>queued = [], selected = None, results = [], committed = [],
      sequence = (\<lambda>a. 0), next_address = 0\<rparr>"

text \<open>Modelled from the spec: \<open>createAccount\<close> is not in the sources. Section 4.5,
  "allocates a fresh address and zero-initialized sequence number; always succeeds".\<close>

definition createAccount :: "harness \<Rightarrow> address \<times> harness" where
  "createAccount h =
     (next_address h,
      h\<lparr>sequence := (sequence h)(next_address h := 0), next_address := next_address h + 1\<rparr>)"

text \<open>Modelled from the spec: \<open>addTransaction\<close> is not in the sources. Section 4.5,
  "appends to the Queued set; fails if a transaction is currently Selected (in flight) for
  the same harness instance (`is currently being executed')". Every operation returns
  the harness as it is afterwards together with its outcome.\<close>

definition addTransaction :: "harness \<Rightarrow> transaction \<Rightarrow> harness_error option \<times> harness" where
  "addTransaction h tx =
     (if selected h \<noteq> None then (Some CurrentlyBeingExecuted, h)
      else (None, h\<lparr>queued := queued h @ [tx]\<rparr>))"

text \<open>
  Modelled from the spec: \<open>executeNextTransaction\<close> is not in the sources. Section 4.5, "if
  the Queued set is empty, returns `no transaction' (not an error); otherwise pops the
  oldest Queued transaction (FIFO), moves it to Selected, runs it, and moves it to
  Succeeded/Failed based on outcome, incrementing each signer's sequence number exactly
  once regardless of outcome"; section 5, "the harness rejects any operation that would
  start a second concurrent execution". Running a transaction is the interpreter's work
  (an external collaborator, section 6), taken as the parameter \<open>run\<close>.
\<close>

definition executeNextTransaction ::
  "(transaction \<Rightarrow> status) \<Rightarrow> harness \<Rightarrow> (harness_error + status option) \<times> harness"
where
  "executeNextTransaction run h =
     (if selected h \<noteq> None then (Inl CurrentlyBeingExecuted, h)
      else case queued h of
             [] \<Rightarrow> (Inr None, h)
           | tx # rest \<Rightarrow>
               (let h1 = h\<lparr>queued := rest, selected := Some tx\<rparr>;
                    r = run tx
                in (Inr (Some r),
                    h1\<lparr>selected := None,
                       results := results h1 @ [r],
                       sequence := (\<lambda>a. if a \<in> set (signers tx) then sequence h1 a + 1
                                          else sequence h1 a)\<rparr>)))"

text \<open>
  Modelled from the spec: \<open>commitBlock\<close> is not in the sources. Section 4.5, "fails
  (`cannot be committed before execution') if any transaction in the block is still
  Queued; fails (`is currently being executed') if any transaction is Selected; otherwise
  transitions the block to Committed and opens a fresh block"; section 3, "fails without
  mutating state". The message for a block of which some transactions have been executed
  and others are still queued is the one the test "commit partially executed block"
  (testlib\_test.go, lines 670-703) asserts, \<open>is currently being executed\<close>; the first
  message is kept for the block none of whose transactions has been executed (test
  "commit un-executed block", lines 641-668).
\<close>

definition commitBlock :: "harness \<Rightarrow> harness_error option \<times> harness" where
  "commitBlock h =
     (if queued h \<noteq> [] \<and> results h = [] then (Some CommitBeforeExecution, h)
      else if queued h \<noteq> [] \<or> selected h \<noteq> None then (Some CurrentlyBeingExecuted, h)
      else (None, h\<lparr>committed := committed h @ [results h], results := []\<rparr>))"

subsection \<open>The test scripts of \<open>TestExecutingTransactions\<close>\<close>

text \<open>
  Each test body is a sequence of harness calls; a call that fails ends the script with
  its error (in the test, the error aborts the Cadence function under test and surfaces
  as the error of \<open>RunTest\<close>).
\<close>

datatype step =
    CreateAccount
  | AddTransaction transaction
  | ExecuteNextTransaction
  | CommitBlock

fun run_script ::
  "(transaction \<Rightarrow> status) \<Rightarrow> step list \<Rightarrow> harness \<Rightarrow> harness_error option \<times> harness"
where
  "run_script run [] h = (None, h)"
| "run_script run (CreateAccount # ss) h = run_script run ss (snd (createAccount h))"
| "run_script run (AddTransaction tx # ss) h =
     (case addTransaction h tx of
        (Some e, h') \<Rightarrow> (Some e, h')
      | (None, h') \<Rightarrow> run_script run ss h')"
| "run_script run (ExecuteNextTransaction # ss) h =
     (case executeNextTransaction run h of
        (Inl e, h') \<Rightarrow> (Some e, h')
      | (Inr r, h') \<Rightarrow> run_script run ss h')"
| "run_script run (CommitBlock # ss) h =
     (case commitBlock h of
        (Some e, h') \<Rightarrow> (Some e, h')
      | (None, h') \<Rightarrow> run_script run ss h')"

text \<open>The transactions of the tests; the signer is the account the script creates
  first (address 0 of a new harness).\<close>

definition tx_assert_false :: transaction where
  "tx_assert_false =
     \<lparr>code = ''transaction { execute{ assert(false) } }'', authorizers = [], signers = [0],
      arguments = []\<rparr>"

definition tx_assert_true :: transaction where
  "tx_assert_true =
     \<lparr>code = ''transaction { execute{ assert(true) } }'', authorizers = [], signers = [0],
      arguments = []\<rparr>"

text \<open>
  Modelled from the spec: the interpreter is an external collaborator (section 6,
  \<open>interpret\<close>). This stand-in gives the two outcomes the tests "run next transaction"
  and "transaction failure" assert for the two transactions above.
\<close>

definition test_interpreter :: "transaction \<Rightarrow> status" where
  "test_interpreter tx =
     (if code tx = ''transaction { execute{ assert(false) } }'' then Failed else Succeeded)"

text \<open>Lines 493-517, "add transaction": no error.\<close>

definition test_add_transaction :: "step list" where
  "test_add_transaction = [CreateAccount, AddTransaction (tx_assert_false\<lparr>authorizers := [0]\<rparr>)]"

text \<open>Lines 519-546, "run next transaction": no error.\<close>

definition test_run_next_transaction :: "step list" where
  "test_run_next_transaction =
     [CreateAccount, AddTransaction tx_assert_true, ExecuteNextTransaction]"

text \<open>Lines 606-622, "run non existing transaction": no error (the result is nil).\<close>

definition test_run_non_existing_transaction :: "step list" where
  "test_run_non_existing_transaction = [ExecuteNextTransaction]"

text \<open>Lines 624-639, "commit block": no error.\<close>

definition test_commit_block :: "step list" where
  "test_commit_block = [CommitBlock]"

text \<open>Lines 641-668, "commit un-executed block": the error contains
  \<open>cannot be committed before execution\<close>.\<close>

definition test_commit_unexecuted_block :: "step list" where
  "test_commit_unexecuted_block = [CreateAccount, AddTransaction tx_assert_false, CommitBlock]"

text \<open>Lines 670-703, "commit partially executed block": the error contains
  \<open>is currently being executed\<close>.\<close>

definition test_commit_partially_executed_block :: "step list" where
  "test_commit_partially_executed_block =
     [CreateAccount, AddTransaction tx_assert_false, AddTransaction tx_assert_false,
      ExecuteNextTransaction, CommitBlock]"

text \<open>Lines 705-721, "multiple commit block": no error.\<close>

definition test_multiple_commit_block :: "step list" where
  "test_multiple_commit_block = [CommitBlock, CommitBlock]"

text \<open>The harness states the tests reach just before their last call, and a state with
  a transaction in flight.\<close>

definition unexecuted_block :: harness where
  "unexecuted_block =
     snd (run_script test_interpreter [CreateAccount, AddTransaction tx_assert_false]
            newEmulatorBlockchain)"

definition partially_executed_block :: harness where
  "partially_executed_block =
     snd (run_script test_interpreter
            [CreateAccount, AddTransaction tx_assert_false, AddTransaction tx_assert_false,
             ExecuteNextTransaction]
            newEmulatorBlockchain)"

definition in_flight :: harness where
  "in_flight = newEmulatorBlockchain\<lparr>selected := Some tx_assert_true\<rparr>"

section \<open>Properties of the local activations\<close>

subsection \<open>One iteration of \<open>Find\<close>\<close>

lemma Find_nil: "LocalActivation_Find m nil name = Some nil"
  by (subst LocalActivation_Find.simps) simp

lemma Find_Ptr:
  "LocalActivation_Find m (Ptr c) name =
     (case binds m c name of
        Some result \<Rightarrow> Some result
      | None \<Rightarrow> LocalActivation_Find m (Parent (frames m c)) name)"
  by (subst LocalActivation_Find.simps) (simp add: binds_def split: pointer.splits option.splits)

subsection \<open>\<open>Find\<close> along a chain that ends\<close>

lemma Find_unbound:
  "chain m a as \<Longrightarrow> \<forall>b\<in>set as. binds m b name = None \<Longrightarrow>
   LocalActivation_Find m a name = Some nil"
proof (induction as arbitrary: a)
  case Nil
  then show ?case by (cases a) (simp_all add: Find_nil)
next
  case (Cons b bs)
  then show ?case by (cases a) (simp_all add: Find_Ptr)
qed

lemma Find_nearest:
  "chain m a as \<Longrightarrow> i < length as \<Longrightarrow> binds m (as ! i) name = Some v \<Longrightarrow>
   \<forall>j<i. binds m (as ! j) name = None \<Longrightarrow> LocalActivation_Find m a name = Some v"
proof (induction as arbitrary: a i)
  case Nil
  then show ?case by simp
next
  case (Cons b bs)
  then obtain c where a: "a = Ptr c" "c = b" "chain m (Parent (frames m b)) bs"
    by (cases a) auto
  show ?case
  proof (cases i)
    case 0
    with Cons.prems a show ?thesis by (simp add: Find_Ptr)
  next
    case (Suc k)
    with Cons.prems have b0: "binds m b name = None" by auto
    from Suc Cons.prems have "k < length bs" "binds m (bs ! k) name = Some v"
      "\<forall>j<k. binds m (bs ! j) name = None" by auto
    with Cons.IH a have "LocalActivation_Find m (Parent (frames m b)) name = Some v" by blast
    with a b0 show ?thesis by (simp add: Find_Ptr)
  qed
qed

text \<open>If some frame of the list binds the name, there is a nearest one.\<close>

lemma nearest_exists:
  assumes "\<not> (\<forall>b\<in>set as. binds m b name = None)"
  shows "\<exists>i v. i < length as \<and> binds m (as ! i) name = Some v \<and>
           (\<forall>j<i. binds m (as ! j) name = None)"
proof -
  let ?P = "\<lambda>i. i < length as \<and> binds m (as ! i) name \<noteq> None"
  from assms obtain b where b: "b \<in> set as" "binds m b name \<noteq> None" by blast
  then obtain k where "k < length as" "as ! k = b" by (auto simp: in_set_conv_nth)
  with b have "?P k" by simp
  define i where "i = (LEAST i. ?P i)"
  have Pi: "?P i" unfolding i_def using \<open>?P k\<close> by (rule LeastI)
  have "\<forall>j<i. binds m (as ! j) name = None"
  proof (intro allI impI)
    fix j assume "j < i"
    then have "\<not> ?P j" unfolding i_def by (rule not_less_Least)
    with \<open>j < i\<close> Pi show "binds m (as ! j) name = None" by auto
  qed
  with Pi show ?thesis by auto
qed

lemma Find_after_Set:
  "LocalActivation_Set m a name v = Inr m' \<Longrightarrow> LocalActivation_Find m' a name = Some v"
  by (cases a) (auto simp: LocalActivation_Set_def Find_Ptr binds_def Let_def)

subsection \<open>A chain that does not end\<close>

lemma cyclic_frames:
  "entries (frames cyclic a) = nil" "Parent (frames cyclic a) = Ptr 0"
  by (simp_all add: cyclic_def)

lemma Find_returns_in_cyclic:
  assumes "LocalActivation_Find m cur name = Some r"
  shows "m = cyclic \<longrightarrow> cur = nil"
proof (rule LocalActivation_Find.raw_induct
        [where P = "\<lambda>m cur name r. m = cyclic \<longrightarrow> cur = nil", OF _ assms])
  fix find and m :: "nat memory" and current name r
  assume IH: "\<And>m current name r. find m current name = Some r \<Longrightarrow>
                m = cyclic \<longrightarrow> current = nil"
    and step: "(case current of
        nil \<Rightarrow> Some nil
      | Ptr c \<Rightarrow>
          (case entries (frames m c) of
             nil \<Rightarrow> find m (Parent (frames m c)) name
           | Ptr es \<Rightarrow>
               (case es name of
                  Some result \<Rightarrow> Some result
                | None \<Rightarrow> find m (Parent (frames m c)) name))) = Some r"
  show "m = cyclic \<longrightarrow> current = nil"
  proof
    assume m: "m = cyclic"
    show "current = nil"
    proof (cases current)
      case nil
      then show ?thesis .
    next
      case (Ptr c)
      with step m have "find cyclic (Ptr 0) name = Some r"
        by (simp add: cyclic_frames)
      from IH [OF this] show ?thesis by simp
    qed
  qed
qed

text \<open>
  On a frame whose \<open>Parent\<close> is the frame itself (the field is exported and can be
  assigned), \<open>Find\<close> of a name that is not bound never returns. This is why the
  statement about \<open>Find\<close> below is about chains that reach \<open>nil\<close>.
\<close>

lemma LocalActivation_Find_cyclic_diverges:
  "LocalActivation_Find cyclic (Ptr 0) name = None"
  using Find_returns_in_cyclic [of cyclic "Ptr 0" name]
  by (cases "LocalActivation_Find cyclic (Ptr 0) name") auto

subsection \<open>Claim C9\<close>

text \<open>
  C9, as the code has it. For every activation \<open>a\<close> whose chain of \<open>Parent\<close> links ends
  in \<open>nil\<close> (visiting the frames \<open>as\<close>, nearest first) and every name:
  \<^item> \<open>Find\<close> returns;
  \<^item> if frame \<open>as ! i\<close> binds the name to \<open>v\<close> and no nearer frame binds it, \<open>Find\<close>
    returns \<open>v\<close> (the nearest binding wins, whatever outer frames hold);
  \<^item> if no frame of the chain binds the name, \<open>Find\<close> returns \<open>nil\<close>;
  \<^item> \<open>Find\<close> returns \<open>nil\<close> exactly when no frame binds the name or the nearest frame
    that binds it binds it to \<open>nil\<close>;
  \<^item> after \<open>a.Set(name, v)\<close>, \<open>a.Find(name)\<close> returns \<open>v\<close>: a binding set in the inner
    frame shadows every outer one.
\<close>

theorem LocalActivation_Find_nearest_binding:
  assumes "chain m a as"
  shows "(\<exists>r. LocalActivation_Find m a name = Some r) \<and>
         (\<forall>i v. i < length as \<and> binds m (as ! i) name = Some v \<and>
                 (\<forall>j<i. binds m (as ! j) name = None)
               \<longrightarrow> LocalActivation_Find m a name = Some v) \<and>
         ((\<forall>b\<in>set as. binds m b name = None) \<longrightarrow> LocalActivation_Find m a name = Some nil) \<and>
         (LocalActivation_Find m a name = Some nil \<longleftrightarrow>
            (\<forall>b\<in>set as. binds m b name = None) \<or>
            (\<exists>i<length as. binds m (as ! i) name = Some nil \<and>
                 (\<forall>j<i. binds m (as ! j) name = None))) \<and>
         (\<forall>v m'. LocalActivation_Set m a name v = Inr m'
               \<longrightarrow> LocalActivation_Find m' a name = Some v)"
proof -
  have near: "LocalActivation_Find m a name = Some v"
    if "i < length as" "binds m (as ! i) name = Some v" "\<forall>j<i. binds m (as ! j) name = None"
    for i v
    using Find_nearest [OF assms that] .
  have unb: "LocalActivation_Find m a name = Some nil" if "\<forall>b\<in>set as. binds m b name = None"
    using Find_unbound [OF assms that] .
  have ex: "\<exists>r. LocalActivation_Find m a name = Some r"
  proof (cases "\<forall>b\<in>set as. binds m b name = None")
    case True
    with unb show ?thesis by blast
  next
    case False
    from nearest_exists [OF this] near show ?thesis by blast
  qed
  have iff: "LocalActivation_Find m a name = Some nil \<longleftrightarrow>
            (\<forall>b\<in>set as. binds m b name = None) \<or>
            (\<exists>i<length as. binds m (as ! i) name = Some nil \<and>
                 (\<forall>j<i. binds m (as ! j) name = None))"
  proof
    assume res: "LocalActivation_Find m a name = Some nil"
    show "(\<forall>b\<in>set as. binds m b name = None) \<or>
            (\<exists>i<length as. binds m (as ! i) name = Some nil \<and>
                 (\<forall>j<i. binds m (as ! j) name = None))"
    proof (cases "\<forall>b\<in>set as. binds m b name = None")
      case True
      then show ?thesis by blast
    next
      case False
      from nearest_exists [OF this] obtain i v where
        iv: "i < length as" "binds m (as ! i) name = Some v"
            "\<forall>j<i. binds m (as ! j) name = None" by blast
      from near [OF iv] res have "v = nil" by simp
      with iv show ?thesis by blast
    qed
  next
    assume "(\<forall>b\<in>set as. binds m b name = None) \<or>
            (\<exists>i<length as. binds m (as ! i) name = Some nil \<and>
                 (\<forall>j<i. binds m (as ! j) name = None))"
    then show "LocalActivation_Find m a name = Some nil"
      using unb near by blast
  qed
  from ex near unb iff Find_after_Set show ?thesis by blast
qed

lemma two_frames_binds:
  "binds two_frames 1 ''x'' = Some (Ptr 2)"
  "binds two_frames 0 ''x'' = Some (Ptr 1)"
  "binds two_frames 1 ''y'' = None"
  "binds two_frames 0 ''y'' = Some (Ptr 7)"
  "binds two_frames 1 ''z'' = None"
  "binds two_frames 0 ''z'' = None"
  by (simp_all add: binds_def two_frames_def)

lemma two_frames_chain: "chain two_frames (Ptr 1) [1, 0]"
  by (simp add: two_frames_def)

text \<open>
  The statement at work on an inner frame 1 (binding \<open>x\<close>) over an outer frame 0
  (binding \<open>x\<close> and \<open>y\<close>): \<open>x\<close> is found in the inner frame, \<open>y\<close> in the outer one, \<open>z\<close>
  nowhere.
\<close>

theorem LocalActivation_Find_nearest_binding_witness:
  "chain two_frames (Ptr 1) [1, 0] \<and>
   binds two_frames 1 ''x'' = Some (Ptr 2) \<and> binds two_frames 0 ''x'' = Some (Ptr 1) \<and>
   LocalActivation_Find two_frames (Ptr 1) ''x'' = Some (Ptr 2) \<and>
   binds two_frames 1 ''y'' = None \<and> binds two_frames 0 ''y'' = Some (Ptr 7) \<and>
   LocalActivation_Find two_frames (Ptr 1) ''y'' = Some (Ptr 7) \<and>
   LocalActivation_Find two_frames (Ptr 1) ''z'' = Some nil"
proof -
  note c = two_frames_chain
  have x: "LocalActivation_Find two_frames (Ptr 1) ''x'' = Some (Ptr 2)"
  proof -
    have "(0::nat) < length [1::nat, 0] \<and> binds two_frames ([1, 0] ! 0) ''x'' = Some (Ptr 2) \<and>
          (\<forall>j<0. binds two_frames ([1, 0] ! j) ''x'' = None)"
      by (simp add: binds_def two_frames_def)
    with LocalActivation_Find_nearest_binding [OF c, of "''x''"] show ?thesis by blast
  qed
  have y: "LocalActivation_Find two_frames (Ptr 1) ''y'' = Some (Ptr 7)"
  proof -
    have "(1::nat) < length [1::nat, 0] \<and> binds two_frames ([1, 0] ! 1) ''y'' = Some (Ptr 7) \<and>
          (\<forall>j<1. binds two_frames ([1, 0] ! j) ''y'' = None)"
      by (simp add: binds_def two_frames_def)
    with LocalActivation_Find_nearest_binding [OF c, of "''y''"] show ?thesis by blast
  qed
  have z: "LocalActivation_Find two_frames (Ptr 1) ''z'' = Some nil"
  proof -
    have "\<forall>b\<in>set [1::nat, 0]. binds two_frames b ''z'' = None"
      by (simp add: binds_def two_frames_def)
    with LocalActivation_Find_nearest_binding [OF c, of "''z''"] show ?thesis by blast
  qed
  from c x y z two_frames_binds show ?thesis by simp
qed

text \<open>
  C9 as it is written fails: "returns nil exactly when no frame on that chain binds n".
  \<open>a := NewLocalActivation(nil); a.Set("x", nil)\<close> gives a frame that binds \<open>x\<close> (to
  \<open>nil\<close>), and \<open>a.Find("x")\<close> returns \<open>nil\<close>.
\<close>

theorem LocalActivation_Find_nil_binding_counterexample:
  "NewLocalActivation empty_memory nil = (one_frame, 0) \<and>
   LocalActivation_Set one_frame (Ptr 0) ''x'' nil = Inr nil_bound \<and>
   chain nil_bound (Ptr 0) [0] \<and>
   binds nil_bound 0 ''x'' = Some nil \<and>
   LocalActivation_Find nil_bound (Ptr 0) ''x'' = Some nil"
  by (simp add: NewLocalActivation_def empty_memory_def one_frame_def nil_bound_def
      LocalActivation_Set_def binds_def Find_Ptr fun_eq_iff)

subsection \<open>Claim C10\<close>

text \<open>
  C10. On the empty stack every operation returns: \<open>Current()\<close> and \<open>Find(name)\<close> return
  \<open>nil\<close>, \<open>Pop()\<close> leaves the stack empty (its depth is 0), and \<open>Set(name, v)\<close> does not
  panic: it
  allocates a fresh activation with no parent (depth 0, not a function frame) whose only
  entry is \<open>name \<mapsto> v\<close>, pushes it as the only element of the stack, leaves every other
  frame as it was, and \<open>Find(name)\<close> on the resulting stack returns \<open>v\<close>.
\<close>

theorem LocalActivations_empty_stack_total:
  "LocalActivations_Current \<lparr>activations = []\<rparr> = nil \<and>
   LocalActivations_Find m \<lparr>activations = []\<rparr> name = Some nil \<and>
   LocalActivations_Pop \<lparr>activations = []\<rparr> = \<lparr>activations = []\<rparr> \<and>
   LocalActivations_Depth \<lparr>activations = []\<rparr> = 0 \<and>
   LocalActivations_Set m \<lparr>activations = []\<rparr> name v =
     Inr (m\<lparr>frames := (frames m)(fresh m :=
              \<lparr>entries = Ptr [name \<mapsto> v], Depth = 0, Parent = nil, isFunction = False\<rparr>),
            fresh := fresh m + 1\<rparr>,
          \<lparr>activations = [Ptr (fresh m)]\<rparr>) \<and>
   LocalActivations_Find
     (m\<lparr>frames := (frames m)(fresh m :=
              \<lparr>entries = Ptr [name \<mapsto> v], Depth = 0, Parent = nil, isFunction = False\<rparr>),
            fresh := fresh m + 1\<rparr>)
     \<lparr>activations = [Ptr (fresh m)]\<rparr> name = Some v"
  by (simp add: LocalActivations_Current_def LocalActivations_Find_def LocalActivations_Pop_def
      LocalActivations_Depth_def LocalActivations_Set_def
      LocalActivations_PushNewWithParent_def LocalActivations_Push_def
      NewLocalActivation_def LocalActivation_Set_def Find_Ptr binds_def Let_def)

section \<open>Properties of the execution harness\<close>

lemmas harness_defs =
  newEmulatorBlockchain_def createAccount_def addTransaction_def
  executeNextTransaction_def commitBlock_def Let_def

text \<open>The model gives every test script the outcome its test asserts, whatever the
  interpreter makes of the transactions.\<close>

lemma harness_tests_conform:
  "fst (run_script run test_add_transaction newEmulatorBlockchain) = None"
  "fst (run_script run test_run_next_transaction newEmulatorBlockchain) = None"
  "fst (run_script run test_run_non_existing_transaction newEmulatorBlockchain) = None"
  "fst (run_script run test_commit_block newEmulatorBlockchain) = None"
  "fst (run_script run test_commit_unexecuted_block newEmulatorBlockchain)
     = Some CommitBeforeExecution"
  "fst (run_script run test_commit_partially_executed_block newEmulatorBlockchain)
     = Some CurrentlyBeingExecuted"
  "fst (run_script run test_multiple_commit_block newEmulatorBlockchain) = None"
  by (simp_all add: harness_defs test_add_transaction_def test_run_next_transaction_def
      test_run_non_existing_transaction_def test_commit_block_def
      test_commit_unexecuted_block_def test_commit_partially_executed_block_def
      test_multiple_commit_block_def)

lemma reached_states:
  "queued unexecuted_block = [tx_assert_false]" "results unexecuted_block = []"
  "queued partially_executed_block = [tx_assert_false]"
  "results partially_executed_block = [Failed]"
  "selected partially_executed_block = None"
  "queued in_flight = []" "selected in_flight = Some tx_assert_true"
  "queued newEmulatorBlockchain = []" "selected newEmulatorBlockchain = None"
  by (simp_all add: unexecuted_block_def partially_executed_block_def in_flight_def
      harness_defs test_interpreter_def tx_assert_false_def)

subsection \<open>Claim C1\<close>

text \<open>
  C1, amended. \<open>commitBlock()\<close> fails with "cannot be committed before execution" when
  some transaction is Queued and none of the open block's transactions has been executed;
  it fails with "is currently being executed" when some transaction is Queued and another
  one of the block has already been executed, or when none is Queued and one is Selected;
  otherwise it commits the block and opens a fresh one. A failing commit leaves the
  harness as it was.
\<close>

theorem commitBlock_outcomes:
  "(queued h \<noteq> [] \<and> results h = [] \<longrightarrow> commitBlock h = (Some CommitBeforeExecution, h)) \<and>
   (queued h \<noteq> [] \<and> results h \<noteq> [] \<longrightarrow> commitBlock h = (Some CurrentlyBeingExecuted, h)) \<and>
   (queued h = [] \<and> selected h \<noteq> None \<longrightarrow> commitBlock h = (Some CurrentlyBeingExecuted, h)) \<and>
   (queued h = [] \<and> selected h = None \<longrightarrow>
      commitBlock h = (None, h\<lparr>committed := committed h @ [results h], results := []\<rparr>)) \<and>
   (\<forall>e. fst (commitBlock h) = Some e \<longrightarrow> snd (commitBlock h) = h)"
  by (simp add: commitBlock_def)

text \<open>The four cases, at the states of the tests "commit un-executed block" and "commit
  partially executed block", at a state with a transaction in flight, and at a new
  harness.\<close>

theorem commitBlock_outcomes_witness:
  "queued unexecuted_block \<noteq> [] \<and> results unexecuted_block = [] \<and>
   commitBlock unexecuted_block = (Some CommitBeforeExecution, unexecuted_block) \<and>
   queued partially_executed_block \<noteq> [] \<and> results partially_executed_block \<noteq> [] \<and>
   commitBlock partially_executed_block = (Some CurrentlyBeingExecuted, partially_executed_block) \<and>
   queued in_flight = [] \<and> selected in_flight \<noteq> None \<and>
   commitBlock in_flight = (Some CurrentlyBeingExecuted, in_flight) \<and>
   queued newEmulatorBlockchain = [] \<and> selected newEmulatorBlockchain = None \<and>
   commitBlock newEmulatorBlockchain =
     (None, newEmulatorBlockchain\<lparr>committed := committed newEmulatorBlockchain @
                                       [results newEmulatorBlockchain], results := []\<rparr>)"
  using commitBlock_outcomes [of unexecuted_block]
    commitBlock_outcomes [of partially_executed_block]
    commitBlock_outcomes [of in_flight]
    commitBlock_outcomes [of newEmulatorBlockchain]
  by (simp add: reached_states)

text \<open>
  C1 as it is written fails: "fails with `cannot be committed before execution' whenever
  some transaction in the current block is still Queued". After two transactions were
  added and one was executed (test "commit partially executed block"), one transaction
  is still Queued and none is Selected, and the commit fails with the other message.
\<close>

theorem commitBlock_partially_executed_counterexample:
  "fst (run_script test_interpreter
          [CreateAccount, AddTransaction tx_assert_false, AddTransaction tx_assert_false,
           ExecuteNextTransaction]
          newEmulatorBlockchain) = None \<and>
   queued partially_executed_block = [tx_assert_false] \<and>
   selected partially_executed_block = None \<and>
   fst (commitBlock partially_executed_block) = Some CurrentlyBeingExecuted \<and>
   fst (commitBlock partially_executed_block) \<noteq> Some CommitBeforeExecution \<and>
   message CurrentlyBeingExecuted = ''is currently being executed''"
  by (simp add: partially_executed_block_def harness_defs test_interpreter_def
      tx_assert_false_def message_def)

end
